theory Spec2Isabelle
  imports Main
begin

section \<open>JavaScript values used by the job screens\<close>

text \<open>
  The value kinds that the two screens read from and write to job documents, form data and
  CSV rows: strings, booleans, and \<open>undefined\<close> for a property that is absent.
  A string is a list of characters; the date functions only ever inspect the ASCII
  separators \<open>/\<close> and \<open>-\<close> and the pad digit \<open>0\<close>.
\<close>

datatype jsval = Undefined | Bool bool | Str string

datatype jserror = TypeError

text \<open>JavaScript truthiness: \<open>undefined\<close>, \<open>false\<close> and the empty string are falsy.\<close>

fun truthy :: "jsval \<Rightarrow> bool" where
  "truthy Undefined = False"
| "truthy (Bool b) = b"
| "truthy (Str s) = (s \<noteq> [])"

text \<open>\<open>a || b\<close>: the left operand when it is truthy, the right operand otherwise.\<close>

definition js_or :: "jsval \<Rightarrow> jsval \<Rightarrow> jsval" where
  "js_or a b = (if truthy a then a else b)"

text \<open>An object is a finite map from property names to values; reading an absent
  property gives \<open>undefined\<close>.\<close>

type_synonym jsobject = "string \<rightharpoonup> jsval"

definition getProp :: "jsobject \<Rightarrow> string \<Rightarrow> jsval" where
  "getProp obj k = (case obj k of None \<Rightarrow> Undefined | Some v \<Rightarrow> v)"

section \<open>String primitives\<close>

text \<open>\<open>s.includes(c)\<close> for a one-character search string.\<close>

definition str_includes :: "string \<Rightarrow> char \<Rightarrow> bool" where
  "str_includes s c = (c \<in> set s)"

text \<open>\<open>s.split(c)\<close> for a one-character separator: the pieces between the separators,
  empty pieces kept; the empty string splits into one empty piece.\<close>

fun split :: "char \<Rightarrow> string \<Rightarrow> string list" where
  "split c [] = [[]]"
| "split c (x # xs) =
     (if x = c then [] # split c xs
      else (case split c xs of
              [] \<Rightarrow> [[x]]
            | p # ps \<Rightarrow> (x # p) # ps))"

text \<open>\<open>s.padStart(n, "0")\<close> with a one-character filler: \<open>s\<close> itself once it has
  \<open>n\<close> characters, otherwise filled on the left up to \<open>n\<close>.\<close>

definition padStart :: "nat \<Rightarrow> char \<Rightarrow> string \<Rightarrow> string" where
  "padStart n c s = replicate (n - length s) c @ s"

text \<open>Array destructuring \<open>[a, b, c] = parts\<close>: a position past the end of the array
  is \<open>undefined\<close>.\<close>

definition element :: "string list \<Rightarrow> nat \<Rightarrow> string option" where
  "element parts i = (if i < length parts then Some (parts ! i) else None)"

text \<open>A destructured piece inside a template literal: \<open>undefined\<close> prints as the
  nine letters of its name.\<close>

definition template :: "string option \<Rightarrow> string" where
  "template p = (case p of None \<Rightarrow> ''undefined'' | Some s \<Rightarrow> s)"

section \<open>Date conversion in the customer screen\<close>

text \<open>
  \<^verbatim>\<open>
  const formatDateForInput = (dateStr) => {
    if (!dateStr || !dateStr.includes("/")) return dateStr;
    const [month, day, year] = dateStr.split("/");
    return `${year}-${month.padStart(2, "0")}-${day.padStart(2, "0")}`;
  };
  \<close>
  A falsy argument is returned as it is. A truthy argument that is not a string has no
  \<open>includes\<close> method, and calling \<open>padStart\<close> on an \<open>undefined\<close> piece would
  throw as well; both are the \<open>TypeError\<close> branch.
\<close>

definition formatDateForInput :: "jsval \<Rightarrow> jserror + jsval" where
  "formatDateForInput dateStr =
     (if \<not> truthy dateStr then Inr dateStr
      else (case dateStr of
              Str s \<Rightarrow>
                (if \<not> str_includes s CHR ''/'' then Inr dateStr
                 else (let parts = split CHR ''/'' s;
                           month = element parts 0;
                           day = element parts 1;
                           year = element parts 2
                       in (case (month, day) of
                             (Some m, Some d) \<Rightarrow>
                               Inr (Str (template year @ ''-'' @ padStart 2 CHR ''0'' m
                                           @ ''-'' @ padStart 2 CHR ''0'' d))
                           | _ \<Rightarrow> Inl TypeError)))
            | _ \<Rightarrow> Inl TypeError))"

text \<open>
  \<^verbatim>\<open>
  const formatDateForStorage = (dateStr) => {
    if (!dateStr || !dateStr.includes("-")) return dateStr;
    const [year, month, day] = dateStr.split("-");
    return `${month}/${day}/${year}`;
  };
  \<close>
\<close>

definition formatDateForStorage :: "jsval \<Rightarrow> jserror + jsval" where
  "formatDateForStorage dateStr =
     (if \<not> truthy dateStr then Inr dateStr
      else (case dateStr of
              Str s \<Rightarrow>
                (if \<not> str_includes s CHR ''-'' then Inr dateStr
                 else (let parts = split CHR ''-'' s;
                           year = element parts 0;
                           month = element parts 1;
                           day = element parts 2
                       in Inr (Str (template month @ ''/'' @ template day
                                      @ ''/'' @ template year))))
            | _ \<Rightarrow> Inl TypeError))"

text \<open>The shape \<open>MM/DD/YYYY\<close> that the stored date is expected to have: a month and a day
  of one or two decimal digits and a year of four.\<close>

definition isDigit :: "char \<Rightarrow> bool" where
  "isDigit c = (c \<in> set ''0123456789'')"

definition wellFormedMDY :: "string \<Rightarrow> string \<Rightarrow> string \<Rightarrow> bool" where
  "wellFormedMDY m d y =
     (list_all isDigit m \<and> list_all isDigit d \<and> list_all isDigit y
      \<and> length m \<in> {1, 2} \<and> length d \<in> {1, 2} \<and> length y = 4)"

section \<open>Numbers and dates of the dashboard\<close>

text \<open>
  The dashboard turns the three pieces of a stored date into numbers and hands them to
  \<open>new Date(year, month - 1, day)\<close>. A number here is \<open>NaN\<close> or an integer.
  \<open>toNumber\<close> is the conversion that the \<open>Date\<close> constructor and the subtraction apply
  to a piece: \<open>undefined\<close> (a missing piece) is \<open>NaN\<close>, the empty string is \<open>0\<close>, a
  string of decimal digits is its value. Other spellings of a number (blanks, a sign, a
  fraction, an exponent, a radix prefix) do not occur in a date of digits and slashes and
  are not read as numbers here.
\<close>

datatype jsnum = NaN | Fin int

definition digitValue :: "char \<Rightarrow> int" where
  "digitValue c = int (of_char c) - 48"

definition toNumber :: "string option \<Rightarrow> jsnum" where
  "toNumber v =
     (case v of
        None \<Rightarrow> NaN
      | Some s \<Rightarrow>
          (if list_all isDigit s then Fin (foldl (\<lambda>n c. 10 * n + digitValue c) 0 s)
           else NaN))"

text \<open>\<open>a - b\<close> on numbers: \<open>NaN\<close> when either side is.\<close>

fun js_minus :: "jsnum \<Rightarrow> jsnum \<Rightarrow> jsnum" where
  "js_minus (Fin a) (Fin b) = Fin (a - b)"
| "js_minus _ _ = NaN"

text \<open>
  A \<open>Date\<close> object is invalid or names a day of the local calendar, counted in days from
  1 January 1970; the time of day plays no part in \<open>toDateString\<close>.
  The day arithmetic is that of the language standard: \<open>DayFromYear\<close>, the leap year
  rule, and \<open>MakeDay\<close>, which lets a month outside \<open>0..11\<close> carry into the year and a
  day outside the month carry into the following months.
\<close>

datatype jsdate = InvalidDate | LocalDay int

definition dayFromYear :: "int \<Rightarrow> int" where
  "dayFromYear y =
     365 * (y - 1970) + (y - 1969) div 4 - (y - 1901) div 100 + (y - 1601) div 400"

definition inLeapYear :: "int \<Rightarrow> bool" where
  "inLeapYear y = (y mod 4 = 0 \<and> (y mod 100 \<noteq> 0 \<or> y mod 400 = 0))"

text \<open>Days of the year \<open>y\<close> that precede its month \<open>m\<close> (\<open>0\<close> is January; \<open>12\<close> is the
  start of the next year).\<close>

definition monthStart :: "int \<Rightarrow> int \<Rightarrow> int" where
  "monthStart y m =
     [0, 31, 59, 90, 120, 151, 181, 212, 243, 273, 304, 334, 365] ! nat m
       + (if 2 \<le> m \<and> inLeapYear y then 1 else 0)"

definition makeDay :: "int \<Rightarrow> int \<Rightarrow> int \<Rightarrow> int" where
  "makeDay year month dt =
     (let ym = year + month div 12;
          mn = month mod 12
      in dayFromYear ym + monthStart ym mn + dt - 1)"

text \<open>
  \<open>new Date(year, monthIndex, day)\<close>: any \<open>NaN\<close> argument gives an invalid date, a
  year from 0 to 99 means 1900 + year, and a day more than 100,000,000 days away from
  1 January 1970 is outside the range of time values and gives an invalid date too
  (the bound is the one of a zone without offset from UTC; the offset of another zone
  moves it by less than a day).
\<close>

definition newDate :: "jsnum \<Rightarrow> jsnum \<Rightarrow> jsnum \<Rightarrow> jsdate" where
  "newDate year monthIndex day =
     (case (year, monthIndex, day) of
        (Fin y, Fin m, Fin dt) \<Rightarrow>
          (let yr = (if 0 \<le> y \<and> y \<le> 99 then 1900 + y else y);
               n = makeDay yr m dt
           in if \<bar>n\<bar> \<le> 100000000 then LocalDay n else InvalidDate)
      | _ \<Rightarrow> InvalidDate)"

text \<open>The year of a day: the last year that starts on or before it, found among the
  three years around the estimate by the mean length of a year.\<close>

definition yearFromDay :: "int \<Rightarrow> int" where
  "yearFromDay n =
     (let y = 1970 + (400 * n) div 146097
      in if dayFromYear (y + 1) \<le> n then y + 1
         else if dayFromYear y \<le> n then y
         else y - 1)"

text \<open>The month of a day: the number of months of its year that start on or before it.\<close>

definition monthFromDay :: "int \<Rightarrow> int" where
  "monthFromDay n =
     (let y = yearFromDay n; d = n - dayFromYear y
      in int (length (filter (\<lambda>m. monthStart y m \<le> d) [1, 2, 3, 4, 5, 6, 7, 8, 9, 10, 11])))"

definition dateFromDay :: "int \<Rightarrow> int" where
  "dateFromDay n =
     (let y = yearFromDay n
      in n - dayFromYear y - monthStart y (monthFromDay n) + 1)"

text \<open>1 January 1970 was a Thursday; \<open>0\<close> is Sunday.\<close>

definition weekDay :: "int \<Rightarrow> int" where
  "weekDay n = (n + 4) mod 7"

fun showNat :: "nat \<Rightarrow> string" where
  "showNat n =
     (if n < 10 then [''0123456789'' ! n]
      else showNat (n div 10) @ [''0123456789'' ! (n mod 10)])"

definition dayNames :: "string list" where
  "dayNames = [''Sun'', ''Mon'', ''Tue'', ''Wed'', ''Thu'', ''Fri'', ''Sat'']"

definition monthNames :: "string list" where
  "monthNames = [''Jan'', ''Feb'', ''Mar'', ''Apr'', ''May'', ''Jun'',
                 ''Jul'', ''Aug'', ''Sep'', ''Oct'', ''Nov'', ''Dec'']"

text \<open>
  \<open>date.toDateString()\<close>: the text \<open>Invalid Date\<close>, or weekday, month, day of the
  month on two digits and year on at least four, as in \<open>Fri Jan 05 2024\<close>.
\<close>

definition toDateString :: "jsdate \<Rightarrow> string" where
  "toDateString date =
     (case date of
        InvalidDate \<Rightarrow> ''Invalid Date''
      | LocalDay n \<Rightarrow>
          (let y = yearFromDay n
           in dayNames ! nat (weekDay n) @ '' '' @ monthNames ! nat (monthFromDay n) @ '' ''
                @ padStart 2 CHR ''0'' (showNat (nat (dateFromDay n))) @ '' ''
                @ (if 0 \<le> y then [] else ''-'') @ padStart 4 CHR ''0'' (showNat (nat \<bar>y\<bar>))))"

section \<open>The dashboard: jobs by day, blackout days, calendar tiles\<close>

text \<open>A job document as the dashboard reads it: its identifier and its \<open>date\<close>, a string
  or absent (\<open>None\<close>); the remaining fields are the extension of the record.\<close>

record job =
  job_id :: string
  job_date :: "string option"

text \<open>
  The function mapped over the jobs in \<open>jobDates\<close>:
  \<^verbatim>\<open>
  (job) => {
    if (job.date) {
      const [month, day, year] = job.date.split("/");
      return new Date(year, month - 1, day).toDateString();
    }
    return null;
  }
  \<close>
\<close>

definition jobDateString :: "'a job_scheme \<Rightarrow> string option" where
  "jobDateString job =
     (case job_date job of
        None \<Rightarrow> None
      | Some s \<Rightarrow>
          (if s = [] then None
           else (let parts = split CHR ''/'' s;
                     month = element parts 0;
                     day = element parts 1;
                     year = element parts 2
                 in Some (toDateString
                            (newDate (toNumber year) (js_minus (toNumber month) (Fin 1))
                               (toNumber day))))))"

text \<open>\<open>const jobDates = jobs.map(...).filter(Boolean)\<close>: the filter drops \<open>null\<close> and
  the empty string.\<close>

definition jobDates :: "'a job_scheme list \<Rightarrow> string list" where
  "jobDates jobs =
     concat (map (\<lambda>k. case k of None \<Rightarrow> [] | Some s \<Rightarrow> (if s = [] then [] else [s]))
               (map jobDateString jobs))"


text \<open>
  What \<open>handleBlackoutToggle\<close> shows besides changing the list of blackout days: lines
  on the console, and the alert that refuses a day with jobs. The alert names the clicked
  day in the format of the user's locale, so it carries the date rather than a text.
\<close>

datatype notice = Log string | Alert jsdate

text \<open>
  \<^verbatim>\<open>
  const handleBlackoutToggle = (clickedDate, event) => {
    if (event.ctrlKey) {
      const dateString = clickedDate.toDateString();
      const hasJobs = jobDates.includes(dateString);
      if (!hasJobs) {
        const isBlackout = blackoutDates.includes(dateString);
        if (isBlackout) {
          setBlackoutDates(blackoutDates.filter((d) => d !== dateString));
          console.log(`Removed blackout for ${dateString}`);
        } else {
          setBlackoutDates([...blackoutDates, dateString]);
          console.log(`Added blackout for ${dateString}`);
        }
      } else {
        console.log(`Cannot blackout ${dateString} - has jobs`);
        alert(`Cannot blackout ... because it has scheduled jobs.`);
      }
    }
  };
  \<close>
  The component state \<open>jobs\<close> and \<open>blackoutDates\<close> is passed in; the result is the new
  list of blackout days and what was shown.
\<close>

definition handleBlackoutToggle ::
  "'a job_scheme list \<Rightarrow> string list \<Rightarrow> jsdate \<Rightarrow> bool \<Rightarrow> string list \<times> notice list" where
  "handleBlackoutToggle jobs blackoutDates clickedDate ctrlKey =
     (if ctrlKey then
        (let dateString = toDateString clickedDate;
             hasJobs = (dateString \<in> set (jobDates jobs))
         in if \<not> hasJobs then
              (let isBlackout = (dateString \<in> set blackoutDates)
               in if isBlackout then
                    (filter (\<lambda>d. d \<noteq> dateString) blackoutDates,
                     [Log (''Removed blackout for '' @ dateString)])
                  else
                    (blackoutDates @ [dateString],
                     [Log (''Added blackout for '' @ dateString)]))
            else
              (blackoutDates,
               [Log (''Cannot blackout '' @ dateString @ '' - has jobs''), Alert clickedDate]))
      else (blackoutDates, []))"

text \<open>
  \<^verbatim>\<open>
  const tileClassName = ({ date, view }) => {
    const dateString = date.toDateString();
    const todayString = new Date().toDateString();
    if (view === "month") {
      if (dateString === todayString) { return "today"; }
      if (blackoutDates.includes(dateString)) { return "blackout"; }
      if (jobDates.includes(dateString)) { return "highlight"; }
    }
    return null;
  };
  \<close>
  \<open>now\<close> is the value of \<open>new Date()\<close> at the call.
\<close>

definition tileClassName ::
  "'a job_scheme list \<Rightarrow> string list \<Rightarrow> jsdate \<Rightarrow> jsdate \<Rightarrow> string \<Rightarrow> string option" where
  "tileClassName jobs blackoutDates now date view =
     (let dateString = toDateString date;
          todayString = toDateString now
      in if view = ''month'' then
           (if dateString = todayString then Some ''today''
            else if dateString \<in> set blackoutDates then Some ''blackout''
            else if dateString \<in> set (jobDates jobs) then Some ''highlight''
            else None)
         else None)"

section \<open>The customer screen: search, edit, CSV import\<close>

text \<open>
  The store orders strings by their UTF-8 bytes, and a string here is its list of bytes:
  \<open>str_le a b\<close> is \<open>a \<le> b\<close> in that order, a proper prefix before its extensions.
  The character U+F8FF that the search appends is the three bytes \<open>EF A3 BF\<close>.
\<close>

fun str_le :: "string \<Rightarrow> string \<Rightarrow> bool" where
  "str_le [] b = True"
| "str_le (x # a) [] = False"
| "str_le (x # a) (y # b) =
     ((of_char x :: nat) < of_char y \<or> (x = y \<and> str_le a b))"

definition str_lt :: "string \<Rightarrow> string \<Rightarrow> bool" where
  "str_lt a b = (str_le a b \<and> a \<noteq> b)"

definition sentinel :: string where
  "sentinel = [CHR 0xEF, CHR 0xA3, CHR 0xBF]"

text \<open>A \<open>where(field, op, value)\<close> clause of a query, and when a document satisfies it:
  the field must be present and a string.\<close>

datatype cmp = GE | LE

definition whereHolds :: "jsobject \<Rightarrow> string \<times> cmp \<times> string \<Rightarrow> bool" where
  "whereHolds d w =
     (case w of
        (field, opr, v) \<Rightarrow>
          (case d field of
             Some (Str s) \<Rightarrow> (case opr of GE \<Rightarrow> str_le v s | LE \<Rightarrow> str_le s v)
           | _ \<Rightarrow> False))"

text \<open>
  \<^verbatim>\<open>
  if (input.length > 0) {
    const q = query(jobsRef,
      where("name", ">=", input),
      where("name", "<=", input + "\\uf8ff"));
    const querySnapshot = await getDocs(q);
    const jobsData = querySnapshot.docs.map((doc) => ({ id: doc.id, ...doc.data() }));
    setMatchingJobs(jobsData);
  } else {
    setMatchingJobs([]);
  }
  \<close>
  The collection is a list of documents, each an identifier with its data; the result is the
  new value of \<open>matchingJobs\<close>.
\<close>

definition searchQuery :: "string \<Rightarrow> (string \<times> cmp \<times> string) list" where
  "searchQuery input = [(''name'', GE, input), (''name'', LE, input @ sentinel)]"

definition getDocs :: "(string \<times> jsobject) list \<Rightarrow> (string \<times> cmp \<times> string) list
                        \<Rightarrow> (string \<times> jsobject) list" where
  "getDocs collection q = filter (\<lambda>doc. list_all (whereHolds (snd doc)) q) collection"

definition handleSearch :: "(string \<times> jsobject) list \<Rightarrow> string \<Rightarrow> jsobject list" where
  "handleSearch collection input =
     (if length input > 0 then
        map (\<lambda>doc. [''id'' \<mapsto> Str (fst doc)] ++ snd doc) (getDocs collection (searchQuery input))
      else [])"



text \<open>
  The body of the loop over the parsed rows in \<open>handleFileUpload\<close>:
  \<^verbatim>\<open>
  try {
    const docId = row.id || uuidv4();
    const formattedRow = {
      ...row,
      date: formatDateForStorage(row.date),
      completed: row.completed === "true" || false,
      id: docId,
    };
    const docRef = doc(db, "jobs", docId);
    await setDoc(docRef, formattedRow);
  } catch (error) { console.error(...); }
  \<close>
  A row of a CSV file parsed with a header line maps column names to strings; a column that
  the row lacks is absent. \<open>uuid\<close> is what \<open>uuidv4()\<close> returns when it is called. The
  store maps document identifiers to documents; a row whose conversion throws leaves it
  as it is.
\<close>

definition rowProp :: "(string \<rightharpoonup> string) \<Rightarrow> string \<Rightarrow> jsval" where
  "rowProp row k = (case row k of None \<Rightarrow> Undefined | Some s \<Rightarrow> Str s)"

definition rowDocId :: "(string \<rightharpoonup> string) \<Rightarrow> string \<Rightarrow> jsval" where
  "rowDocId row uuid = js_or (rowProp row ''id'') (Str uuid)"

definition formattedRow :: "(string \<rightharpoonup> string) \<Rightarrow> string \<Rightarrow> jserror + jsobject" where
  "formattedRow row uuid =
     (case formatDateForStorage (rowProp row ''date'') of
        Inl e \<Rightarrow> Inl e
      | Inr d \<Rightarrow>
          Inr ((map_option Str \<circ> row)
                 (''date'' \<mapsto> d,
                  ''completed'' \<mapsto> js_or (Bool (rowProp row ''completed'' = Str ''true'')) (Bool False),
                  ''id'' \<mapsto> rowDocId row uuid)))"

definition importRow :: "(jsval \<rightharpoonup> jsobject) \<Rightarrow> (string \<rightharpoonup> string) \<Rightarrow> string
                          \<Rightarrow> (jsval \<rightharpoonup> jsobject)" where
  "importRow store row uuid =
     (case formattedRow row uuid of
        Inl e \<Rightarrow> store
      | Inr r \<Rightarrow> store(rowDocId row uuid \<mapsto> r))"

text \<open>The loop itself; \<open>uuids\<close> holds, row by row, the identifier that \<open>uuidv4()\<close>
  would return for that row.\<close>

fun handleFileUpload :: "(jsval \<rightharpoonup> jsobject) \<Rightarrow> ((string \<rightharpoonup> string) \<times> string) list
                          \<Rightarrow> (jsval \<rightharpoonup> jsobject)" where
  "handleFileUpload store [] = store"
| "handleFileUpload store ((row, uuid) # rest) =
     handleFileUpload (importRow store row uuid) rest"

section \<open>Properties of the string primitives\<close>

lemma split_nonempty: "split c s \<noteq> []"
  by (induction s) (auto split: list.splits)

lemma split_no_sep: "c \<notin> set s \<Longrightarrow> split c s = [s]"
  by (induction s) auto

lemma split_append_sep:
  "c \<notin> set p \<Longrightarrow> split c (p @ c # rest) = p # split c rest"
  by (induction p) (auto split: list.splits)

lemma split3:
  assumes "c \<notin> set a" "c \<notin> set b" "c \<notin> set d"
  shows "split c (a @ c # b @ c # d) = [a, b, d]"
  using assms by (simp add: split_append_sep split_no_sep)

lemma isDigit_not_slash: "isDigit x \<Longrightarrow> x \<noteq> CHR ''/''"
  by (auto simp: isDigit_def)

lemma isDigit_not_dash: "isDigit x \<Longrightarrow> x \<noteq> CHR ''-''"
  by (auto simp: isDigit_def)

lemma digits_no_slash: "list_all isDigit s \<Longrightarrow> CHR ''/'' \<notin> set s"
  by (auto simp: list_all_iff dest: isDigit_not_slash)

lemma digits_no_dash: "list_all isDigit s \<Longrightarrow> CHR ''-'' \<notin> set s"
  by (auto simp: list_all_iff dest: isDigit_not_dash)

lemma isDigit_zero: "isDigit CHR ''0''"
  by (simp add: isDigit_def)

lemma replicate_digits: "isDigit c \<Longrightarrow> list_all isDigit (replicate n c)"
  by (induction n) simp_all

lemma padStart_digits: "list_all isDigit s \<Longrightarrow> list_all isDigit (padStart 2 CHR ''0'' s)"
  by (simp add: padStart_def replicate_digits isDigit_zero)

lemma padStart_long: "n \<le> length s \<Longrightarrow> padStart n c s = s"
  by (simp add: padStart_def)

lemma padStart_same_iff: "padStart n c s = s \<longleftrightarrow> n \<le> length s"
proof
  assume "padStart n c s = s"
  then have "length (padStart n c s) = length s" by simp
  then show "n \<le> length s" by (simp add: padStart_def)
qed (simp add: padStart_long)

section \<open>Date conversion: round trip and pass-through\<close>

lemma formatDateForInput_MDY:
  assumes "CHR ''/'' \<notin> set m" "CHR ''/'' \<notin> set d" "CHR ''/'' \<notin> set y"
  shows "formatDateForInput (Str (m @ ''/'' @ d @ ''/'' @ y))
         = Inr (Str (y @ ''-'' @ padStart 2 CHR ''0'' m @ ''-'' @ padStart 2 CHR ''0'' d))"
proof -
  have "split CHR ''/'' (m @ CHR ''/'' # d @ CHR ''/'' # y) = [m, d, y]"
    using assms by (rule split3)
  then show ?thesis
    by (simp add: formatDateForInput_def str_includes_def element_def template_def)
qed

lemma formatDateForStorage_YMD:
  assumes "CHR ''-'' \<notin> set y" "CHR ''-'' \<notin> set m" "CHR ''-'' \<notin> set d"
  shows "formatDateForStorage (Str (y @ ''-'' @ m @ ''-'' @ d))
         = Inr (Str (m @ ''/'' @ d @ ''/'' @ y))"
proof -
  have "split CHR ''-'' (y @ CHR ''-'' # m @ CHR ''-'' # d) = [y, m, d]"
    using assms by (rule split3)
  then show ?thesis
    by (simp add: formatDateForStorage_def str_includes_def element_def template_def)
qed

text \<open>
  C1, as the code has it. For a well-formed stored date \<open>m/d/y\<close>, the display form is
  \<open>y-mm-dd\<close> with month and day padded to two digits, converting that back gives
  \<open>mm/dd/y\<close>, and this is the string we started from exactly when month and day were
  already two digits long.
\<close>

theorem date_round_trip_padded:
  assumes "wellFormedMDY m d y"
  shows "formatDateForInput (Str (m @ ''/'' @ d @ ''/'' @ y))
           = Inr (Str (y @ ''-'' @ padStart 2 CHR ''0'' m @ ''-'' @ padStart 2 CHR ''0'' d))
       \<and> formatDateForStorage
             (Str (y @ ''-'' @ padStart 2 CHR ''0'' m @ ''-'' @ padStart 2 CHR ''0'' d))
           = Inr (Str (padStart 2 CHR ''0'' m @ ''/'' @ padStart 2 CHR ''0'' d @ ''/'' @ y))
       \<and> (padStart 2 CHR ''0'' m @ ''/'' @ padStart 2 CHR ''0'' d @ ''/'' @ y
             = m @ ''/'' @ d @ ''/'' @ y
           \<longleftrightarrow> length m = 2 \<and> length d = 2)"
proof -
  from assms have dm: "list_all isDigit m" and dd: "list_all isDigit d"
    and dy: "list_all isDigit y" and lm: "length m \<in> {1, 2}" and ld: "length d \<in> {1, 2}"
    by (simp_all add: wellFormedMDY_def)
  have first: "formatDateForInput (Str (m @ ''/'' @ d @ ''/'' @ y))
           = Inr (Str (y @ ''-'' @ padStart 2 CHR ''0'' m @ ''-'' @ padStart 2 CHR ''0'' d))"
    using dm dd dy by (intro formatDateForInput_MDY digits_no_slash)
  have second: "formatDateForStorage
             (Str (y @ ''-'' @ padStart 2 CHR ''0'' m @ ''-'' @ padStart 2 CHR ''0'' d))
           = Inr (Str (padStart 2 CHR ''0'' m @ ''/'' @ padStart 2 CHR ''0'' d @ ''/'' @ y))"
    using dm dd dy by (intro formatDateForStorage_YMD digits_no_dash padStart_digits)
  have third: "padStart 2 CHR ''0'' m @ ''/'' @ padStart 2 CHR ''0'' d @ ''/'' @ y
             = m @ ''/'' @ d @ ''/'' @ y
           \<longleftrightarrow> length m = 2 \<and> length d = 2"
  proof
    assume eq: "padStart 2 CHR ''0'' m @ ''/'' @ padStart 2 CHR ''0'' d @ ''/'' @ y
             = m @ ''/'' @ d @ ''/'' @ y"
    have "split CHR ''/'' (padStart 2 CHR ''0'' m @ CHR ''/'' # padStart 2 CHR ''0'' d @ CHR ''/'' # y)
          = [padStart 2 CHR ''0'' m, padStart 2 CHR ''0'' d, y]"
      using dm dd dy by (intro split3 digits_no_slash padStart_digits)
    moreover have "split CHR ''/'' (m @ CHR ''/'' # d @ CHR ''/'' # y) = [m, d, y]"
      using dm dd dy by (intro split3 digits_no_slash)
    moreover have "split CHR ''/'' (padStart 2 CHR ''0'' m @ CHR ''/'' # padStart 2 CHR ''0'' d @ CHR ''/'' # y)
          = split CHR ''/'' (m @ CHR ''/'' # d @ CHR ''/'' # y)"
      using arg_cong [OF eq, of "split CHR ''/''"] by simp
    ultimately have "padStart 2 CHR ''0'' m = m \<and> padStart 2 CHR ''0'' d = d"
      by simp
    then have "2 \<le> length m \<and> 2 \<le> length d"
      by (simp add: padStart_same_iff)
    with lm ld show "length m = 2 \<and> length d = 2" by auto
  next
    assume "length m = 2 \<and> length d = 2"
    then show "padStart 2 CHR ''0'' m @ ''/'' @ padStart 2 CHR ''0'' d @ ''/'' @ y
             = m @ ''/'' @ d @ ''/'' @ y"
      by (simp add: padStart_long)
  qed
  from first second third show ?thesis by blast
qed

theorem date_round_trip_padded_witness:
  "wellFormedMDY ''03'' ''07'' ''2024''
   \<and> formatDateForInput (Str ''03/07/2024'') = Inr (Str ''2024-03-07'')
   \<and> formatDateForStorage (Str ''2024-03-07'') = Inr (Str ''03/07/2024'')"
proof -
  have wf: "wellFormedMDY ''03'' ''07'' ''2024''"
    by (simp add: wellFormedMDY_def isDigit_def)
  from date_round_trip_padded [OF wf] wf show ?thesis
    by (simp add: padStart_def)
qed

text \<open>
  C1, as the specification states it, fails on a stored date with an unpadded month and
  day: \<open>1/5/2024\<close> is well formed, is shown as \<open>2024-01-05\<close>, and is stored
  back as \<open>01/05/2024\<close>.
\<close>

theorem date_round_trip_unpadded_counterexample:
  "wellFormedMDY ''1'' ''5'' ''2024''
   \<and> formatDateForInput (Str ''1/5/2024'') = Inr (Str ''2024-01-05'')
   \<and> formatDateForStorage (Str ''2024-01-05'') = Inr (Str ''01/05/2024'')
   \<and> ''01/05/2024'' \<noteq> ''1/5/2024''"
  by (simp add: wellFormedMDY_def isDigit_def formatDateForInput_def formatDateForStorage_def
      str_includes_def element_def template_def padStart_def)

text \<open>
  C7. A string that is empty or has no \<open>/\<close> passes through \<open>formatDateForInput\<close>
  unchanged, and a string that is empty or has no \<open>-\<close> passes through
  \<open>formatDateForStorage\<close> unchanged; neither call throws.
\<close>

theorem date_pass_through:
  "(s = [] \<or> CHR ''/'' \<notin> set s \<longrightarrow> formatDateForInput (Str s) = Inr (Str s))
   \<and> (s = [] \<or> CHR ''-'' \<notin> set s \<longrightarrow> formatDateForStorage (Str s) = Inr (Str s))"
  by (auto simp: formatDateForInput_def formatDateForStorage_def str_includes_def)

theorem date_pass_through_witness:
  "CHR ''/'' \<notin> set ''next week'' \<and> CHR ''-'' \<notin> set ''next week''
   \<and> formatDateForInput (Str ''next week'') = Inr (Str ''next week'')
   \<and> formatDateForStorage (Str ''next week'') = Inr (Str ''next week'')
   \<and> formatDateForInput (Str []) = Inr (Str [])
   \<and> formatDateForStorage (Str []) = Inr (Str [])"
  using date_pass_through [of "''next week''"] date_pass_through [of "[]"]
  by simp

section \<open>The dashboard: calendar arithmetic\<close>

lemma div_lower: "0 < k \<Longrightarrow> k * (x div k) \<le> (x :: int)"
  using mult_div_mod_eq [of k x] pos_mod_sign [of k x] by linarith

lemma div_upper: "0 < k \<Longrightarrow> (x :: int) < k * (x div k) + k"
  using mult_div_mod_eq [of k x] pos_mod_bound [of k x] by linarith

lemma aux_lower:
  fixes y a b c :: int
  assumes "y - 1969 < 4 * a + 4" "100 * b \<le> y - 1901" "y - 1601 < 400 * c + 400"
  shows "146097 * (y - 1970) - 607 \<le> 400 * (365 * (y - 1970) + a - b + c)"
  using assms by (simp add: algebra_simps)

lemma aux_upper:
  fixes y a b c :: int
  assumes "4 * a \<le> y - 1969" "y - 1901 < 100 * b + 100" "400 * c \<le> y - 1601"
  shows "400 * (365 * (y - 1970) + a - b + c) \<le> 146097 * (y - 1970) + 593"
  using assms by (simp add: algebra_simps)

lemma aux_mono:
  fixes y a b c a' b' c' :: int
  assumes "a \<le> a'" "b' \<le> b + 1" "c \<le> c'"
  shows "365 * (y - 1970) + a - b + c < 365 * (y + 1 - 1970) + a' - b' + c'"
  using assms by (simp add: algebra_simps)

lemma dayFromYear_lower: "146097 * (y - 1970) - 607 \<le> 400 * dayFromYear y"
  unfolding dayFromYear_def
  by (rule aux_lower) (rule div_upper div_lower, simp)+

lemma dayFromYear_upper: "400 * dayFromYear y \<le> 146097 * (y - 1970) + 593"
  unfolding dayFromYear_def
  by (rule aux_upper) (rule div_upper div_lower, simp)+

lemma div_succ: "0 < k \<Longrightarrow> (x :: int) div k \<le> (x + 1) div k"
  by (rule zdiv_mono1) simp_all

lemma div_succ_100: "((x :: int) + 1) div 100 \<le> x div 100 + 1"
proof -
  have "100 * ((x + 1) div 100) \<le> x + 1" by (rule div_lower) simp
  moreover have "x < 100 * (x div 100) + 100" by (rule div_upper) simp
  ultimately show ?thesis by (simp add: algebra_simps)
qed

lemma dayFromYear_mono: "dayFromYear y < dayFromYear (y + 1)"
proof -
  have a: "(y - 1969) div 4 \<le> (y - 1969 + 1) div 4" by (rule div_succ) simp
  have c: "(y - 1601) div 400 \<le> (y - 1601 + 1) div 400" by (rule div_succ) simp
  have b: "(y - 1901 + 1) div 100 \<le> (y - 1901) div 100 + 1" by (rule div_succ_100)
  have e: "y + 1 - 1969 = y - 1969 + 1" "y + 1 - 1601 = y - 1601 + 1" "y + 1 - 1901 = y - 1901 + 1"
    by simp_all
  show ?thesis unfolding dayFromYear_def e(1) e(2) e(3) using a b c by (rule aux_mono)
qed

text \<open>The year computed for a day is the one the language standard asks for: the last
  year that starts on or before the day.\<close>

lemma yearFromDay_spec:
  "dayFromYear (yearFromDay n) \<le> n \<and> n < dayFromYear (yearFromDay n + 1)"
proof -
  define y where "y = 1970 + (400 * n) div 146097"
  have "146097 * ((400 * n) div 146097) \<le> 400 * n" by (rule div_lower) simp
  then have lo: "146097 * (y - 1970) \<le> 400 * n" by (simp add: y_def)
  have "400 * n < 146097 * ((400 * n) div 146097) + 146097" by (rule div_upper) simp
  then have hi: "400 * n < 146097 * (y - 1970) + 146097" by (simp add: y_def)
  have below: "dayFromYear (y - 1) \<le> n"
    using dayFromYear_upper [of "y - 1"] lo by (simp add: algebra_simps)
  have above: "n < dayFromYear (y + 1 + 1)"
    using dayFromYear_lower [of "y + 1 + 1"] hi by (simp add: algebra_simps)
  have yd: "yearFromDay n =
     (if dayFromYear (y + 1) \<le> n then y + 1 else if dayFromYear y \<le> n then y else y - 1)"
    unfolding yearFromDay_def y_def Let_def by (rule refl)
  show ?thesis
  proof (cases "dayFromYear (y + 1) \<le> n")
    case True
    with above yd show ?thesis by simp
  next
    case False
    note f1 = this
    show ?thesis
    proof (cases "dayFromYear y \<le> n")
      case True
      with f1 yd show ?thesis by simp
    next
      case False
      with f1 yd below show ?thesis by simp
    qed
  qed
qed

lemma monthFromDay_range: "0 \<le> monthFromDay n \<and> monthFromDay n \<le> 11"
proof -
  have "length (filter P [1, 2, 3, 4, 5, 6, 7, 8, 9, 10, 11 :: int]) \<le> 11" for P
    using length_filter_le [of P "[1, 2, 3, 4, 5, 6, 7, 8, 9, 10, 11]"] by simp
  then show ?thesis by (simp add: monthFromDay_def Let_def)
qed

text \<open>Year, month and day of the month of a day give the day back.\<close>

lemma makeDay_round_trip: "makeDay (yearFromDay n) (monthFromDay n) (dateFromDay n) = n"
proof -
  have "monthFromDay n div 12 = 0" and "monthFromDay n mod 12 = monthFromDay n"
    using monthFromDay_range [of n] by simp_all
  then show ?thesis by (simp add: makeDay_def dateFromDay_def Let_def)
qed

section \<open>The dashboard: day strings\<close>

lemma weekDay_range: "nat (weekDay n) \<in> {0, 1, 2, 3, 4, 5, 6}"
proof -
  have "0 \<le> (n + 4) mod 7" and "(n + 4) mod 7 < 7" by simp_all
  then have "nat ((n + 4) mod 7) < 7" by simp
  then show ?thesis unfolding weekDay_def by (auto simp: less_Suc_eq numeral_eq_Suc)
qed






lemma jobDates_Nil: "jobDates [] = []"
  by (simp add: jobDates_def)




subsection \<open>Decimal digits\<close>

text \<open>The recursive equation of \<open>showNat\<close> is applied by hand, one step at a time.\<close>

declare showNat.simps [simp del]

lemma digit_cases: "k < 10 \<Longrightarrow> k \<in> {0, 1, 2, 3, 4, 5, 6, 7, 8, 9 :: nat}"
  by (auto simp: less_Suc_eq numeral_eq_Suc)

lemma digit_nth_value: "k < 10 \<Longrightarrow> digitValue (''0123456789'' ! k) = int k"
  using digit_cases [of k] by (auto simp: digitValue_def)

lemma digit_nth_isDigit: "k < 10 \<Longrightarrow> isDigit (''0123456789'' ! k)"
  using digit_cases [of k] by (auto simp: isDigit_def)

lemma showNat_small: "n < 10 \<Longrightarrow> showNat n = [''0123456789'' ! n]"
  by (subst showNat.simps) simp

lemma showNat_large:
  "\<not> n < 10 \<Longrightarrow> showNat n = showNat (n div 10) @ [''0123456789'' ! (n mod 10)]"
  by (subst showNat.simps) simp

lemma showNat_digits: "list_all isDigit (showNat n)"
proof (induction n rule: showNat.induct)
  case (1 n)
  show ?case
  proof (cases "n < 10")
    case True
    then show ?thesis by (simp only: showNat_small) (simp add: digit_nth_isDigit)
  next
    case False
    with 1 have "list_all isDigit (showNat (n div 10))" by simp
    moreover have "isDigit (''0123456789'' ! (n mod 10))" by (rule digit_nth_isDigit) simp
    ultimately show ?thesis by (simp only: showNat_large [OF False]) simp
  qed
qed

lemma showNat_value: "foldl (\<lambda>n c. 10 * n + digitValue c) 0 (showNat n) = int n"
proof (induction n rule: showNat.induct)
  case (1 n)
  show ?case
  proof (cases "n < 10")
    case True
    then show ?thesis by (simp only: showNat_small) (simp add: digit_nth_value)
  next
    case False
    with 1 have "foldl (\<lambda>n c. 10 * n + digitValue c) 0 (showNat (n div 10)) = int (n div 10)"
      by simp
    moreover have "digitValue (''0123456789'' ! (n mod 10)) = int (n mod 10)"
      by (rule digit_nth_value) simp
    ultimately show ?thesis
      by (simp only: showNat_large [OF False] foldl_append) (simp add: zdiv_int zmod_int)
  qed
qed

lemma value_leading_zeros:
  "foldl (\<lambda>n c. 10 * n + digitValue c) 0 (replicate k CHR ''0'' @ s)
     = foldl (\<lambda>n c. 10 * n + digitValue c) 0 s"
  by (induction k) (simp_all add: digitValue_def)

lemma padStart_showNat_value:
  "foldl (\<lambda>n c. 10 * n + digitValue c) 0 (padStart k CHR ''0'' (showNat n)) = int n"
  by (simp only: padStart_def value_leading_zeros showNat_value)

lemma padStart_showNat_inject:
  assumes "padStart k CHR ''0'' (showNat a) = padStart j CHR ''0'' (showNat b)"
  shows "a = b"
proof -
  have "int a = int b"
    using padStart_showNat_value [of k a] padStart_showNat_value [of j b] assms by simp
  then show ?thesis by simp
qed

lemma padStart_showNat_digits: "list_all isDigit (padStart k CHR ''0'' (showNat n))"
  by (simp add: padStart_def replicate_digits isDigit_zero showNat_digits)

lemma showNat_nonempty: "showNat n \<noteq> []"
  by (cases "n < 10") (simp_all add: showNat_small showNat_large)

subsection \<open>The pieces of a day string\<close>

lemma isDigit_not_space: "isDigit x \<Longrightarrow> x \<noteq> CHR '' ''"
  by (auto simp: isDigit_def)

lemma digits_no_space: "list_all isDigit s \<Longrightarrow> CHR '' '' \<notin> set s"
  by (auto simp: list_all_iff dest: isDigit_not_space)

lemma append_sep_inject:
  fixes c :: char
  assumes "c \<notin> set a" "c \<notin> set a'" "a @ c # b = a' @ c # b'"
  shows "a = a' \<and> b = b'"
proof -
  have "split c (a @ c # b) = a # split c b" using assms(1) by (rule split_append_sep)
  moreover have "split c (a' @ c # b') = a' # split c b'" using assms(2) by (rule split_append_sep)
  ultimately have "a = a'" using assms(3) by simp
  with assms(3) show ?thesis by simp
qed

lemma dayNames_length: "k \<in> {0, 1, 2, 3, 4, 5, 6} \<Longrightarrow> length (dayNames ! k) = 3"
  by (auto simp: dayNames_def)

lemma month_cases: "k < 12 \<Longrightarrow> k \<in> {0, 1, 2, 3, 4, 5, 6, 7, 8, 9, 10, 11 :: nat}"
  by (auto simp: less_Suc_eq numeral_eq_Suc)

lemma monthNames_length: "k < 12 \<Longrightarrow> length (monthNames ! k) = 3"
  using month_cases [of k] by (auto simp: monthNames_def)

lemma monthNames_distinct: "distinct monthNames"
  by (simp add: monthNames_def)

lemma monthNames_inject:
  "i < 12 \<Longrightarrow> j < 12 \<Longrightarrow> monthNames ! i = monthNames ! j \<Longrightarrow> i = j"
  using monthNames_distinct by (simp add: nth_eq_iff_index_eq monthNames_def)

text \<open>The month of a day starts on or before the day, so the day of the month is at least 1.\<close>

lemma month_ranges:
  fixes d :: int
  obtains "d < 31" | "31 \<le> d" "d < 59 + L" | "59 + L \<le> d" "d < 90 + L"
    | "90 + L \<le> d" "d < 120 + L" | "120 + L \<le> d" "d < 151 + L"
    | "151 + L \<le> d" "d < 181 + L" | "181 + L \<le> d" "d < 212 + L"
    | "212 + L \<le> d" "d < 243 + L" | "243 + L \<le> d" "d < 273 + L"
    | "273 + L \<le> d" "d < 304 + L" | "304 + L \<le> d" "d < 334 + L" | "334 + L \<le> d"
  by linarith

lemma month_count_leap:
  assumes "0 \<le> d" "inLeapYear y"
  shows "monthStart y (int (length (filter (\<lambda>m. monthStart y m \<le> d)
            [1, 2, 3, 4, 5, 6, 7, 8, 9, 10, 11]))) \<le> d"
  by (rule month_ranges [where d = d and L = 1]) (simp_all add: monthStart_def assms)

lemma month_count_common:
  assumes "0 \<le> d" "\<not> inLeapYear y"
  shows "monthStart y (int (length (filter (\<lambda>m. monthStart y m \<le> d)
            [1, 2, 3, 4, 5, 6, 7, 8, 9, 10, 11]))) \<le> d"
  by (rule month_ranges [where d = d and L = 0]) (simp_all add: monthStart_def assms)

lemma dateFromDay_positive: "1 \<le> dateFromDay n"
proof -
  have d: "0 \<le> n - dayFromYear (yearFromDay n)"
    using yearFromDay_spec [of n] by simp
  have "monthStart (yearFromDay n) (monthFromDay n) \<le> n - dayFromYear (yearFromDay n)"
    unfolding monthFromDay_def Let_def
    using month_count_leap [OF d] month_count_common [OF d] by blast
  then show ?thesis by (simp add: dateFromDay_def Let_def)
qed

lemma yearText_inject:
  assumes "(if 0 \<le> y then [] else ''-'') @ padStart 4 CHR ''0'' (showNat (nat \<bar>y\<bar>))
         = (if 0 \<le> z then [] else ''-'') @ padStart 4 CHR ''0'' (showNat (nat \<bar>z\<bar>))"
  shows "y = (z :: int)"
proof -
  have no_dash: "padStart 4 CHR ''0'' (showNat k) \<noteq> CHR ''-'' # rest" for k rest
  proof
    assume "padStart 4 CHR ''0'' (showNat k) = CHR ''-'' # rest"
    then have "list_all isDigit (CHR ''-'' # rest)"
      using padStart_showNat_digits [of 4 k] by simp
    then show False by (simp add: isDigit_def)
  qed
  consider "0 \<le> y" "0 \<le> z" | "0 \<le> y" "\<not> 0 \<le> z" | "\<not> 0 \<le> y" "0 \<le> z"
    | "\<not> 0 \<le> y" "\<not> 0 \<le> z" by blast
  then show ?thesis
  proof cases
    case 1
    with assms have "nat \<bar>y\<bar> = nat \<bar>z\<bar>" by (simp add: padStart_showNat_inject)
    with 1 show ?thesis by simp
  next
    case 2
    with assms no_dash show ?thesis by simp
  next
    case 3
    with assms no_dash [of "nat \<bar>z\<bar>"] show ?thesis by (auto dest: sym)
  next
    case 4
    with assms have "nat \<bar>y\<bar> = nat \<bar>z\<bar>" by (simp add: padStart_showNat_inject)
    with 4 show ?thesis by simp
  qed
qed

text \<open>Different days of the calendar have different strings: the string of a day is a
  key for the day.\<close>

lemma toDateString_inject:
  assumes "toDateString (LocalDay a) = toDateString (LocalDay b)"
  shows "a = b"
proof -
  define W where "W n = dayNames ! nat (weekDay n)" for n
  define M where "M n = monthNames ! nat (monthFromDay n)" for n
  define D where "D n = padStart 2 CHR ''0'' (showNat (nat (dateFromDay n)))" for n
  define Y where "Y n = (if 0 \<le> yearFromDay n then [] else ''-'')
                          @ padStart 4 CHR ''0'' (showNat (nat \<bar>yearFromDay n\<bar>))" for n
  have shape: "toDateString (LocalDay n) = W n @ CHR '' '' # M n @ CHR '' '' # D n @ CHR '' '' # Y n"
    for n
    by (simp add: toDateString_def Let_def W_def M_def D_def Y_def)
  have lenW: "length (W n) = 3" for n
    unfolding W_def using weekDay_range [of n] by (rule dayNames_length)
  have mlt: "nat (monthFromDay n) < 12" for n
    using monthFromDay_range [of n] by linarith
  have lenM: "length (M n) = 3" for n
    unfolding M_def using mlt by (rule monthNames_length)
  have digD: "CHR '' '' \<notin> set (D n)" for n
    unfolding D_def by (rule digits_no_space) (rule padStart_showNat_digits)
  from assms have e0: "W a @ CHR '' '' # M a @ CHR '' '' # D a @ CHR '' '' # Y a
                     = W b @ CHR '' '' # M b @ CHR '' '' # D b @ CHR '' '' # Y b"
    by (simp only: shape)
  then have e1: "M a @ CHR '' '' # D a @ CHR '' '' # Y a = M b @ CHR '' '' # D b @ CHR '' '' # Y b"
    using lenW [of a] lenW [of b] by simp
  then have eM: "M a = M b" and e2: "D a @ CHR '' '' # Y a = D b @ CHR '' '' # Y b"
    using lenM [of a] lenM [of b] by simp_all
  from e2 have eD: "D a = D b" and eY: "Y a = Y b"
    using append_sep_inject [OF digD [of a] digD [of b]] by blast+
  have "nat (monthFromDay a) = nat (monthFromDay b)"
    using eM mlt [of a] mlt [of b] unfolding M_def by (rule_tac monthNames_inject)
  then have m: "monthFromDay a = monthFromDay b"
    using monthFromDay_range [of a] monthFromDay_range [of b] by linarith
  have "nat (dateFromDay a) = nat (dateFromDay b)"
    using eD unfolding D_def by (rule padStart_showNat_inject)
  then have d: "dateFromDay a = dateFromDay b"
    using dateFromDay_positive [of a] dateFromDay_positive [of b] by linarith
  have y: "yearFromDay a = yearFromDay b"
    using eY unfolding Y_def by (rule yearText_inject)
  have "a = makeDay (yearFromDay a) (monthFromDay a) (dateFromDay a)"
    by (simp only: makeDay_round_trip)
  also have "\<dots> = makeDay (yearFromDay b) (monthFromDay b) (dateFromDay b)"
    by (simp only: y m d)
  also have "\<dots> = b" by (simp only: makeDay_round_trip)
  finally show ?thesis .
qed

lemma toDateString_eq_iff:
  "toDateString (LocalDay a) = toDateString (LocalDay b) \<longleftrightarrow> a = b"
  using toDateString_inject by blast

subsection \<open>Some days and jobs, evaluated\<close>


lemma toDateString_19727: "toDateString (LocalDay 19727) = ''Fri Jan 05 2024''"
  by code_simp

lemma toDateString_19728: "toDateString (LocalDay 19728) = ''Sat Jan 06 2024''"
  by code_simp


lemma jobDateString_j1:
  "jobDateString \<lparr>job_id = ''j1'', job_date = Some ''01/05/2024''\<rparr> = Some ''Fri Jan 05 2024''"
  by code_simp






lemma jobDates_j1:
  "jobDates [\<lparr>job_id = ''j1'', job_date = Some ''01/05/2024''\<rparr>] = [''Fri Jan 05 2024'']"
  by (simp add: jobDates_def jobDateString_j1)


section \<open>The dashboard: jobs of a day\<close>






section \<open>The dashboard: calendar tiles\<close>

text \<open>
  C3. In the month view, where a tile is a day, the class of a tile is \<open>today\<close> when its
  day is today's, also when that day is blacked out or has jobs; otherwise \<open>blackout\<close>
  when the day is among the blackout days; otherwise \<open>highlight\<close> when the day is among
  the days with jobs; otherwise none. The code compares day strings; for the day \<open>d\<close> of
  the tile and the day \<open>t\<close> of today the first test is exactly \<open>d = t\<close>.
\<close>

theorem tileClassName_precedence:
  "tileClassName jobs blackoutDates now date ''month'' =
     (if toDateString date = toDateString now then Some ''today''
      else if toDateString date \<in> set blackoutDates then Some ''blackout''
      else if toDateString date \<in> set (jobDates jobs) then Some ''highlight''
      else None)
   \<and> tileClassName jobs blackoutDates (LocalDay t) (LocalDay d) ''month'' =
     (if d = t then Some ''today''
      else if toDateString (LocalDay d) \<in> set blackoutDates then Some ''blackout''
      else if toDateString (LocalDay d) \<in> set (jobDates jobs) then Some ''highlight''
      else None)"
  by (simp add: tileClassName_def Let_def toDateString_eq_iff)

theorem tileClassName_precedence_witness:
  "tileClassName [\<lparr>job_id = ''j1'', job_date = Some ''01/05/2024''\<rparr>] [''Fri Jan 05 2024'']
     (LocalDay 19727) (LocalDay 19727) ''month'' = Some ''today''
   \<and> tileClassName [\<lparr>job_id = ''j1'', job_date = Some ''01/05/2024''\<rparr>] [''Fri Jan 05 2024'']
     (LocalDay 19728) (LocalDay 19727) ''month'' = Some ''blackout''
   \<and> tileClassName [\<lparr>job_id = ''j1'', job_date = Some ''01/05/2024''\<rparr>] []
     (LocalDay 19728) (LocalDay 19727) ''month'' = Some ''highlight''
   \<and> tileClassName ([] :: job list) [] (LocalDay 19728) (LocalDay 19727) ''month'' = None"
  using tileClassName_precedence
          [of "[\<lparr>job_id = ''j1'', job_date = Some ''01/05/2024''\<rparr>]" "[''Fri Jan 05 2024'']"
              "LocalDay 19727" "LocalDay 19727"]
        tileClassName_precedence
          [of "[\<lparr>job_id = ''j1'', job_date = Some ''01/05/2024''\<rparr>]" "[''Fri Jan 05 2024'']"
              "LocalDay 19728" "LocalDay 19727"]
        tileClassName_precedence
          [of "[\<lparr>job_id = ''j1'', job_date = Some ''01/05/2024''\<rparr>]" "[]"
              "LocalDay 19728" "LocalDay 19727"]
        tileClassName_precedence
          [of "[] :: job list" "[]" "LocalDay 19728" "LocalDay 19727"]
  by (simp add: toDateString_19727 toDateString_19728 jobDates_j1 jobDates_Nil)

section \<open>The dashboard: blackout days\<close>

text \<open>
  C4. A Ctrl+click on a day that has jobs is refused: the list of blackout days stays as it
  was, the refusal is logged and shown in an alert, and nothing is thrown. With or without
  the Ctrl key, a click on such a day never changes the list.
\<close>

theorem blackout_rejected_on_job_day:
  assumes "toDateString clickedDate \<in> set (jobDates jobs)"
  shows "handleBlackoutToggle jobs blackoutDates clickedDate True
           = (blackoutDates,
              [Log (''Cannot blackout '' @ toDateString clickedDate @ '' - has jobs''),
               Alert clickedDate])
         \<and> fst (handleBlackoutToggle jobs blackoutDates clickedDate ctrlKey) = blackoutDates"
  using assms by (simp add: handleBlackoutToggle_def Let_def)

theorem blackout_rejected_on_job_day_witness:
  "toDateString (LocalDay 19727)
     \<in> set (jobDates [\<lparr>job_id = ''j1'', job_date = Some ''01/05/2024''\<rparr>])
   \<and> handleBlackoutToggle [\<lparr>job_id = ''j1'', job_date = Some ''01/05/2024''\<rparr>]
        [''Sat Jan 06 2024''] (LocalDay 19727) True
      = ([''Sat Jan 06 2024''],
         [Log ''Cannot blackout Fri Jan 05 2024 - has jobs'', Alert (LocalDay 19727)])"
proof -
  have h: "toDateString (LocalDay 19727)
     \<in> set (jobDates [\<lparr>job_id = ''j1'', job_date = Some ''01/05/2024''\<rparr>])"
    by (simp add: toDateString_19727 jobDates_j1)
  from blackout_rejected_on_job_day [OF h, of "[''Sat Jan 06 2024'']" True] h
  show ?thesis by (simp add: toDateString_19727)
qed

text \<open>
  C5. On a day without jobs, two clicks on the same day with the same Ctrl state leave the
  set of blackout days as it was. A single Ctrl+click does flip the day's membership, and
  when the day was not blacked out the list itself, not only its set, is restored.
\<close>

theorem blackout_toggle_twice:
  assumes "toDateString clickedDate \<notin> set (jobDates jobs)"
  shows "set (fst (handleBlackoutToggle jobs
                    (fst (handleBlackoutToggle jobs blackoutDates clickedDate ctrlKey))
                    clickedDate ctrlKey))
           = set blackoutDates
       \<and> (toDateString clickedDate \<in> set (fst (handleBlackoutToggle jobs blackoutDates clickedDate True))
            \<longleftrightarrow> toDateString clickedDate \<notin> set blackoutDates)
       \<and> (toDateString clickedDate \<notin> set blackoutDates \<longrightarrow>
            fst (handleBlackoutToggle jobs
                    (fst (handleBlackoutToggle jobs blackoutDates clickedDate ctrlKey))
                    clickedDate ctrlKey) = blackoutDates)"
proof -
  have keep: "filter (\<lambda>d. d \<noteq> x) xs = xs" if "x \<notin> set xs" for x :: string and xs
    using that by (induction xs) auto
  show ?thesis
    using assms by (auto simp: handleBlackoutToggle_def Let_def keep)
qed

theorem blackout_toggle_twice_witness:
  "toDateString (LocalDay 19728)
     \<notin> set (jobDates [\<lparr>job_id = ''j1'', job_date = Some ''01/05/2024''\<rparr>])
   \<and> fst (handleBlackoutToggle [\<lparr>job_id = ''j1'', job_date = Some ''01/05/2024''\<rparr>] []
            (LocalDay 19728) True) = [''Sat Jan 06 2024'']
   \<and> fst (handleBlackoutToggle [\<lparr>job_id = ''j1'', job_date = Some ''01/05/2024''\<rparr>]
            (fst (handleBlackoutToggle [\<lparr>job_id = ''j1'', job_date = Some ''01/05/2024''\<rparr>] []
                    (LocalDay 19728) True))
            (LocalDay 19728) True) = []"
proof -
  have h: "toDateString (LocalDay 19728)
     \<notin> set (jobDates [\<lparr>job_id = ''j1'', job_date = Some ''01/05/2024''\<rparr>])"
    by (simp add: toDateString_19728 jobDates_j1)
  have one: "fst (handleBlackoutToggle [\<lparr>job_id = ''j1'', job_date = Some ''01/05/2024''\<rparr>] []
            (LocalDay 19728) True) = [''Sat Jan 06 2024'']"
    by (simp add: handleBlackoutToggle_def Let_def toDateString_19728 jobDates_j1)
  from blackout_toggle_twice [OF h, of "[]" True] h one
  show ?thesis by simp
qed

section \<open>The customer screen: search\<close>

lemma str_le_refl: "str_le a a"
  by (induction a) simp_all

lemma str_le_append: "str_le p (p @ s)"
  by (induction p) simp_all

lemma whereHolds_searchQuery:
  "list_all (whereHolds d) (searchQuery input)
     = (case d ''name'' of
          Some (Str name) \<Rightarrow> str_le input name \<and> str_le name (input @ sentinel)
        | _ \<Rightarrow> False)"
  by (simp add: searchQuery_def whereHolds_def split: option.splits jsval.splits)

text \<open>
  C8, as the code has it. For a search text that is not empty, the jobs found are, in the
  order of the collection, exactly the documents whose \<open>name\<close> is a string in the closed
  interval from the text to the text followed by U+F8FF, both ends included.
\<close>

theorem handleSearch_closed_interval:
  assumes "input \<noteq> []"
  shows "handleSearch collection input
           = map (\<lambda>doc. [''id'' \<mapsto> Str (fst doc)] ++ snd doc)
               (filter (\<lambda>doc. case snd doc ''name'' of
                                 Some (Str name) \<Rightarrow>
                                   str_le input name \<and> str_le name (input @ sentinel)
                               | _ \<Rightarrow> False)
                  collection)"
  using assms by (simp add: handleSearch_def getDocs_def whereHolds_searchQuery)

theorem handleSearch_closed_interval_witness:
  "''al'' \<noteq> []
   \<and> map (\<lambda>j. getProp j ''name'')
        (handleSearch [(''j1'', [''name'' \<mapsto> Str ''alice'']),
                       (''j2'', [''name'' \<mapsto> Str ''bob'']),
                       (''j3'', [''address'' \<mapsto> Str ''alley''])] ''al'')
      = [Str ''alice'']"
proof -
  have h: "''al'' \<noteq> []" by simp
  show ?thesis
    using h
    unfolding handleSearch_closed_interval [OF h]
    by (simp add: sentinel_def getProp_def map_add_def)
qed

text \<open>
  C8, as the specification states it, fails at the upper end of the interval: the second
  clause of the query is \<open><=\<close>, so a job named \<open>a\<close> followed by U+F8FF is found by
  the search for \<open>a\<close>, though its name is not strictly below that bound.
\<close>

theorem search_upper_bound_counterexample:
  "map (\<lambda>j. getProp j ''name'')
     (handleSearch [(''j1'', [''name'' \<mapsto> Str (''a'' @ sentinel)])] ''a'')
     = [Str (''a'' @ sentinel)]
   \<and> \<not> (str_le ''a'' (''a'' @ sentinel) \<and> str_lt (''a'' @ sentinel) (''a'' @ sentinel))"
  by (simp add: handleSearch_def getDocs_def searchQuery_def whereHolds_def sentinel_def
      getProp_def map_add_def str_lt_def)

section \<open>The customer screen: CSV import and edit\<close>









end
